theory Spec2Isabelle
  imports Complex_Main "HOL-Library.Sublist"
begin

section \<open>The battle simulation of \<open>indra/battlefield.py\<close>\<close>

subsection \<open>Soldiers\<close>

text \<open>
  The dataclass \<open>Soldier\<close>. Python's integers are unbounded, so the numeric fields are
  \<open>int\<close>. The soldiers of a battlefield are taken to be distinct objects (as
  \<open>initialize_team\<close> creates them), so the list of soldiers is a list of values.
\<close>

record Soldier =
  x :: int
  y :: int
  strength :: int
  unit_type :: string
  team :: string
  range_dist :: int

definition distance_to :: "Soldier \<Rightarrow> Soldier \<Rightarrow> int" where
  "distance_to self other = \<bar>x self - x other\<bar> + \<bar>y self - y other\<bar>"

definition can_fight :: "Soldier \<Rightarrow> Soldier \<Rightarrow> bool" where
  "can_fight self other \<longleftrightarrow>
     team self \<noteq> team other \<and> distance_to self other \<le> range_dist self"

subsection \<open>What the simulation draws from outside\<close>

text \<open>
  The simulation reads three things it does not compute: the results of
  \<open>random.randint(-1, 1)\<close>, the results of \<open>random.random()\<close>, and the answers of
  \<open>qlib.quantum_best_move\<close>, a library that is not part of the repository. Each is a
  sequence of future results, consumed from the front; the answer of the library may
  depend on the position it is given and on which call it is. The rolls of a combat are
  floating-point numbers in the source; they are real numbers here.
\<close>

record Env =
  randint_src :: "nat \<Rightarrow> int"
  random_src :: "nat \<Rightarrow> real"
  qlib_src :: "nat \<Rightarrow> int \<times> int \<Rightarrow> int \<times> int"

definition randint :: "Env \<Rightarrow> int \<times> Env" where
  "randint e = (randint_src e 0, e\<lparr>randint_src := (\<lambda>k. randint_src e (Suc k))\<rparr>)"

definition random :: "Env \<Rightarrow> real \<times> Env" where
  "random e = (random_src e 0, e\<lparr>random_src := (\<lambda>k. random_src e (Suc k))\<rparr>)"

definition quantum_best_move :: "int \<times> int \<Rightarrow> Env \<Rightarrow> (int \<times> int) \<times> Env" where
  "quantum_best_move p e = (qlib_src e 0 p, e\<lparr>qlib_src := (\<lambda>k. qlib_src e (Suc k))\<rparr>)"

text \<open>\<open>random.randint(-1, 1)\<close> returns -1, 0 or 1; \<open>random.random()\<close> lies in [0, 1).\<close>

definition randint_ok :: "Env \<Rightarrow> bool" where
  "randint_ok e \<longleftrightarrow> (\<forall>k. randint_src e k = -1 \<or> randint_src e k = 0 \<or> randint_src e k = 1)"

definition random_ok :: "Env \<Rightarrow> bool" where
  "random_ok e \<longleftrightarrow> (\<forall>k. 0 \<le> random_src e k \<and> random_src e k < 1)"

subsection \<open>The battlefield\<close>

text \<open>
  The dictionary \<open>history\<close> has the three keys \<open>__init__\<close> gives it and no other code
  adds or removes one, so it is a record of three lists; the key \<open>'turn'\<close> is the field
  \<open>turn_hist\<close>.
\<close>

record History =
  team_a_count :: "int list"
  team_b_count :: "int list"
  turn_hist :: "int list"

record QuantumBattlefield =
  width :: int
  height :: int
  board_size :: int
  soldiers :: "Soldier list"
  turn :: int
  history :: History

definition init :: "int \<Rightarrow> int \<Rightarrow> QuantumBattlefield" where
  "init w h = \<lparr>width = w, height = h, board_size = w * h, soldiers = [], turn = 0,
     history = \<lparr>team_a_count = [], team_b_count = [], turn_hist = []\<rparr>\<rparr>"

definition add_soldier :: "Soldier \<Rightarrow> QuantumBattlefield \<Rightarrow> QuantumBattlefield" where
  "add_soldier soldier b = b\<lparr>soldiers := soldiers b @ [soldier]\<rparr>"

text \<open>\<open>sum(1 for s in self.soldiers if s.team == t)\<close>\<close>

definition count_team :: "string \<Rightarrow> Soldier list \<Rightarrow> int" where
  "count_team t ss = sum_list (map (\<lambda>s. 1) (filter (\<lambda>s. team s = t) ss))"

definition record_history :: "QuantumBattlefield \<Rightarrow> QuantumBattlefield" where
  "record_history b =
     (let count_a = count_team ''Quantum'' (soldiers b);
          count_b = count_team ''B'' (soldiers b)
      in b\<lparr>history := (history b)\<lparr>
            team_a_count := team_a_count (history b) @ [count_a],
            team_b_count := team_b_count (history b) @ [count_b],
            turn_hist := turn_hist (history b) @ [turn b]\<rparr>\<rparr>)"

subsection \<open>Movement\<close>

text \<open>
  The body of the loop of \<open>move_soldiers\<close> for one soldier: the policy's answer
  \<open>best_move\<close>, then the clip to the grid, then the update of the position.
\<close>

definition best_move_of :: "Soldier \<Rightarrow> Env \<Rightarrow> (int \<times> int) \<times> Env" where
  "best_move_of soldier e =
     (if team soldier = ''Quantum'' then quantum_best_move (x soldier, y soldier) e
      else (let (dx, e1) = randint e; (dy, e2) = randint e1 in ((dx, dy), e2)))"

definition move_soldier :: "int \<Rightarrow> int \<Rightarrow> Soldier \<Rightarrow> Env \<Rightarrow> Soldier \<times> Env" where
  "move_soldier w h soldier e =
     (let (best_move, e') = best_move_of soldier e;
          new_x = max 0 (min (w - 1) (fst best_move));
          new_y = max 0 (min (h - 1) (snd best_move))
      in (soldier\<lparr>x := new_x, y := new_y\<rparr>, e'))"

fun move_loop :: "int \<Rightarrow> int \<Rightarrow> Soldier list \<Rightarrow> Env \<Rightarrow> Soldier list \<times> Env" where
  "move_loop w h [] e = ([], e)"
| "move_loop w h (soldier # rest) e =
     (let (soldier', e1) = move_soldier w h soldier e;
          (rest', e2) = move_loop w h rest e1
      in (soldier' # rest', e2))"

definition move_soldiers :: "QuantumBattlefield \<Rightarrow> Env \<Rightarrow> QuantumBattlefield \<times> Env" where
  "move_soldiers b e =
     (let (ss, e') = move_loop (width b) (height b) (soldiers b) e
      in (b\<lparr>soldiers := ss\<rparr>, e'))"

subsection \<open>Combat\<close>

text \<open>
  One fight between the soldiers at indices \<open>i\<close> and \<open>j\<close>: two rolls, and the loser's
  index goes into \<open>dead_soldiers\<close>.
\<close>

definition combat ::
  "nat \<Rightarrow> nat \<Rightarrow> Soldier \<Rightarrow> Soldier \<Rightarrow> nat set \<Rightarrow> Env \<Rightarrow> nat set \<times> Env" where
  "combat i j soldier1 soldier2 dead_soldiers e =
     (let (r1, e1) = random e;
          roll1 = real_of_int (strength soldier1) + r1 * 10;
          (r2, e2) = random e1;
          roll2 = real_of_int (strength soldier2) + r2 * 10
      in if roll1 > roll2 then (insert j dead_soldiers, e2)
         else (insert i dead_soldiers, e2))"

text \<open>The inner loop over \<open>enumerate(self.soldiers)\<close>, for a fixed \<open>i\<close> and \<open>soldier1\<close>.\<close>

fun inner_loop ::
  "nat \<Rightarrow> Soldier \<Rightarrow> (nat \<times> Soldier) list \<Rightarrow> nat set \<Rightarrow> Env \<Rightarrow> nat set \<times> Env" where
  "inner_loop i soldier1 [] dead_soldiers e = (dead_soldiers, e)"
| "inner_loop i soldier1 ((j, soldier2) # rest) dead_soldiers e =
     (if i \<ge> j \<or> j \<in> dead_soldiers \<or> i \<in> dead_soldiers
      then inner_loop i soldier1 rest dead_soldiers e
      else if can_fight soldier1 soldier2
      then (let (dead', e') = combat i j soldier1 soldier2 dead_soldiers e
            in inner_loop i soldier1 rest dead' e')
      else inner_loop i soldier1 rest dead_soldiers e)"

text \<open>The outer loop; \<open>all\<close> is the whole list, which the inner loop walks again.\<close>

fun outer_loop ::
  "Soldier list \<Rightarrow> (nat \<times> Soldier) list \<Rightarrow> nat set \<Rightarrow> Env \<Rightarrow> nat set \<times> Env" where
  "outer_loop all [] dead_soldiers e = (dead_soldiers, e)"
| "outer_loop all ((i, soldier1) # rest) dead_soldiers e =
     (if i \<in> dead_soldiers then outer_loop all rest dead_soldiers e
      else (let (dead', e') = inner_loop i soldier1 (enumerate 0 all) dead_soldiers e
            in outer_loop all rest dead' e'))"

definition resolve_combat :: "QuantumBattlefield \<Rightarrow> Env \<Rightarrow> QuantumBattlefield \<times> Env" where
  "resolve_combat b e =
     (let (dead_soldiers, e') = outer_loop (soldiers b) (enumerate 0 (soldiers b)) {} e
      in (b\<lparr>soldiers :=
              map snd (filter (\<lambda>(i, s). i \<notin> dead_soldiers) (enumerate 0 (soldiers b)))\<rparr>,
          e'))"

subsection \<open>A turn, and the queries\<close>

definition step :: "QuantumBattlefield \<Rightarrow> Env \<Rightarrow> QuantumBattlefield \<times> Env" where
  "step b e =
     (let (b1, e1) = move_soldiers b e;
          (b2, e2) = resolve_combat b1 e1;
          b3 = b2\<lparr>turn := turn b2 + 1\<rparr>
      in (record_history b3, e2))"

text \<open>\<open>n\<close> calls of \<open>step\<close>, one after the other.\<close>

fun steps :: "nat \<Rightarrow> QuantumBattlefield \<Rightarrow> Env \<Rightarrow> QuantumBattlefield \<times> Env" where
  "steps 0 b e = (b, e)"
| "steps (Suc n) b e = (let (b', e') = steps n b e in step b' e')"

definition is_battle_over :: "QuantumBattlefield \<Rightarrow> bool" where
  "is_battle_over b =
     (let count_a = count_team ''Quantum'' (soldiers b);
          count_b = count_team ''Classical'' (soldiers b)
      in count_a = 0 \<or> count_b = 0)"

definition get_winner :: "QuantumBattlefield \<Rightarrow> string option" where
  "get_winner b =
     (let count_a = count_team ''Quantum'' (soldiers b);
          count_b = count_team ''Classical'' (soldiers b)
      in if count_a = 0 \<and> count_b = 0 then None
         else if count_a = 0 then Some ''Classical''
         else if count_b = 0 then Some ''Quantum''
         else None)"

definition get_survivor_count :: "QuantumBattlefield \<Rightarrow> int \<times> int" where
  "get_survivor_count b =
     (let count_a = count_team ''Quantum'' (soldiers b);
          count_b = count_team ''Classical'' (soldiers b)
      in (count_a, count_b))"

subsection \<open>Concrete battlefields\<close>

text \<open>
  A source of draws that are all 0, with a library that answers the position it is
  given; a soldier of the random-walk team in the far corner of the default 4 by 4 grid;
  the same soldier on a grid of width and height 0; two soldiers of equal strength next
  to each other; and the two soldiers of the spec's combat scenario.
\<close>

definition env_zero :: Env where
  "env_zero = \<lparr>randint_src = (\<lambda>k. 0), random_src = (\<lambda>k. 0), qlib_src = (\<lambda>k p. p)\<rparr>"

definition walker :: Soldier where
  "walker = \<lparr>x = 3, y = 3, strength = 1, unit_type = ''soldier'', team = ''B'',
     range_dist = 1\<rparr>"

definition lone_walker_field :: QuantumBattlefield where
  "lone_walker_field = add_soldier walker (init 4 4)"

definition empty_grid_field :: QuantumBattlefield where
  "empty_grid_field = add_soldier walker (init 0 0)"




definition strong_a :: "string \<Rightarrow> Soldier" where
  "strong_a u = \<lparr>x = 0, y = 0, strength = 100, unit_type = u, team = ''Quantum'',
     range_dist = 5\<rparr>"

definition weak_b :: "string \<Rightarrow> string \<Rightarrow> Soldier" where
  "weak_b u t = \<lparr>x = 1, y = 0, strength = 1, unit_type = u, team = t, range_dist = 5\<rparr>"

definition duel_field :: QuantumBattlefield where
  "duel_field = add_soldier (weak_b ''soldier'' ''Classical'')
     (add_soldier (strong_a ''knight'') (init 4 4))"

section \<open>Properties\<close>

lemmas field_defs = init_def add_soldier_def
lemmas move_defs = move_soldiers_def move_soldier_def best_move_of_def randint_def
  quantum_best_move_def
lemmas combat_defs = resolve_combat_def combat_def random_def can_fight_def distance_to_def

subsection \<open>Counting\<close>

lemma count_team_length: "count_team t ss = int (length (filter (\<lambda>s. team s = t) ss))"
  unfolding count_team_def by (induction ss) auto

lemma count_team_nonneg: "0 \<le> count_team t ss"
  by (simp add: count_team_length)

lemma count_team_subseq: "subseq ss ss' \<Longrightarrow> count_team t ss \<le> count_team t ss'"
  unfolding count_team_length
  using list_emb_length [OF subseq_filter, of ss ss' "\<lambda>s. team s = t"]
  by simp

lemma count_team_map_team:
  "map team ss = map team ss' \<Longrightarrow> count_team t ss = count_team t ss'"
proof -
  assume h: "map team ss = map team ss'"
  have "count_team t us = int (length (filter (\<lambda>u. u = t) (map team us)))" for us
    by (simp add: count_team_length filter_map comp_def)
  then show ?thesis by (simp only: h)
qed

lemma subseq_subset: "subseq ss ss' \<Longrightarrow> set ss \<subseteq> set ss'"
  by (auto elim: list_emb_set)

subsection \<open>Movement of one soldier and of the list\<close>

lemma move_soldier_team: "team (fst (move_soldier w h s e)) = team s"
  by (simp add: move_soldier_def case_prod_beta)

lemma move_soldier_clip:
  "1 \<le> w \<Longrightarrow> 1 \<le> h \<Longrightarrow>
   0 \<le> x (fst (move_soldier w h s e)) \<and> x (fst (move_soldier w h s e)) < w \<and>
   0 \<le> y (fst (move_soldier w h s e)) \<and> y (fst (move_soldier w h s e)) < h"
  by (simp add: move_soldier_def case_prod_beta min_less_iff_disj)

lemma randint_ok_randint: "randint_ok e \<Longrightarrow> randint_ok (snd (randint e))"
  by (simp add: randint_ok_def randint_def)

lemma randint_ok_fst:
  "randint_ok e \<Longrightarrow> fst (randint e) = -1 \<or> fst (randint e) = 0 \<or> fst (randint e) = 1"
  by (simp add: randint_ok_def randint_def)

lemma randint_ok_move_soldier: "randint_ok e \<Longrightarrow> randint_ok (snd (move_soldier w h s e))"
  by (simp add: move_soldier_def best_move_of_def quantum_best_move_def case_prod_beta
      randint_ok_randint) (simp add: randint_ok_def)

lemma move_soldier_offsets:
  assumes "randint_ok e" "team s \<noteq> ''Quantum''" "2 \<le> w" "2 \<le> h"
  shows "(x (fst (move_soldier w h s e)) = 0 \<or> x (fst (move_soldier w h s e)) = 1) \<and>
         (y (fst (move_soldier w h s e)) = 0 \<or> y (fst (move_soldier w h s e)) = 1)"
proof -
  have a: "fst (randint e) = -1 \<or> fst (randint e) = 0 \<or> fst (randint e) = 1"
    using assms(1) by (rule randint_ok_fst)
  have b: "fst (randint (snd (randint e))) = -1 \<or> fst (randint (snd (randint e))) = 0
      \<or> fst (randint (snd (randint e))) = 1"
    using randint_ok_randint [OF assms(1)] by (rule randint_ok_fst)
  from a b assms(2-4) show ?thesis
    by (auto simp add: move_soldier_def best_move_of_def case_prod_beta)
qed

lemma move_loop_team: "map team (fst (move_loop w h ss e)) = map team ss"
  by (induction ss arbitrary: e) (simp_all add: case_prod_beta move_soldier_team)

lemma move_loop_clip:
  "1 \<le> w \<Longrightarrow> 1 \<le> h \<Longrightarrow> s \<in> set (fst (move_loop w h ss e)) \<Longrightarrow>
   0 \<le> x s \<and> x s < w \<and> 0 \<le> y s \<and> y s < h"
proof (induction ss arbitrary: e)
  case Nil
  then show ?case by simp
next
  case (Cons a as)
  from Cons.prems(3) have "s = fst (move_soldier w h a e) \<or>
      s \<in> set (fst (move_loop w h as (snd (move_soldier w h a e))))"
    by (simp add: case_prod_beta)
  then show ?case
    using move_soldier_clip [OF Cons.prems(1,2)] Cons.IH [OF Cons.prems(1,2)] by blast
qed

lemma move_loop_offsets:
  "randint_ok e \<Longrightarrow> 2 \<le> w \<Longrightarrow> 2 \<le> h \<Longrightarrow> s \<in> set (fst (move_loop w h ss e)) \<Longrightarrow>
   team s \<noteq> ''Quantum'' \<Longrightarrow> (x s = 0 \<or> x s = 1) \<and> (y s = 0 \<or> y s = 1)"
proof (induction ss arbitrary: e)
  case Nil
  then show ?case by simp
next
  case (Cons a as)
  from Cons.prems(4) consider (head) "s = fst (move_soldier w h a e)"
    | (tail) "s \<in> set (fst (move_loop w h as (snd (move_soldier w h a e))))"
    by (auto simp add: case_prod_beta)
  then show ?case
  proof cases
    case head
    with Cons.prems(5) have "team a \<noteq> ''Quantum''" by (simp add: move_soldier_team)
    from move_soldier_offsets [OF Cons.prems(1) this Cons.prems(2,3)] head
    show ?thesis by simp
  next
    case tail
    from Cons.IH [OF randint_ok_move_soldier [OF Cons.prems(1)] Cons.prems(2,3) tail
        Cons.prems(5)]
    show ?thesis .
  qed
qed

lemma soldiers_move_soldiers:
  "soldiers (fst (move_soldiers b e)) = fst (move_loop (width b) (height b) (soldiers b) e)"
  by (simp add: move_soldiers_def case_prod_beta)

lemma width_move_soldiers: "width (fst (move_soldiers b e)) = width b"
  and height_move_soldiers: "height (fst (move_soldiers b e)) = height b"
  by (simp_all add: move_soldiers_def case_prod_beta)

subsection \<open>What combat and a turn leave alone\<close>

lemma subseq_enumerate_filter: "subseq (map snd (filter P (enumerate n ss))) ss"
  using subseq_map [OF subseq_filter_left, of snd P "enumerate n ss"] by simp

lemma resolve_combat_subseq: "subseq (soldiers (fst (resolve_combat b e))) (soldiers b)"
  by (simp add: resolve_combat_def case_prod_beta subseq_enumerate_filter)

lemma width_resolve_combat: "width (fst (resolve_combat b e)) = width b"
  and height_resolve_combat: "height (fst (resolve_combat b e)) = height b"
  and turn_resolve_combat: "turn (fst (resolve_combat b e)) = turn b"
  and history_resolve_combat: "history (fst (resolve_combat b e)) = history b"
  and board_size_resolve_combat: "board_size (fst (resolve_combat b e)) = board_size b"
  by (simp_all add: resolve_combat_def case_prod_beta)

lemma soldiers_step:
  "soldiers (fst (step b e)) =
   soldiers (fst (resolve_combat (fst (move_soldiers b e)) (snd (move_soldiers b e))))"
  by (simp add: step_def record_history_def case_prod_beta Let_def)

lemma width_step: "width (fst (step b e)) = width b"
  and height_step: "height (fst (step b e)) = height b"
  by (simp_all add: step_def record_history_def case_prod_beta Let_def
      width_resolve_combat height_resolve_combat width_move_soldiers height_move_soldiers)

lemma width_steps: "width (fst (steps n b e)) = width b"
  by (induction n) (simp_all add: case_prod_beta width_step)

lemma height_steps: "height (fst (steps n b e)) = height b"
  by (induction n) (simp_all add: case_prod_beta height_step)

lemma step_subset_moved:
  "set (soldiers (fst (step b e))) \<subseteq> set (soldiers (fst (move_soldiers b e)))"
  unfolding soldiers_step by (rule subseq_subset [OF resolve_combat_subseq])

lemma count_team_step:
  "count_team t (soldiers (fst (step b e))) \<le> count_team t (soldiers b)"
proof -
  have "count_team t (soldiers (fst (step b e)))
      \<le> count_team t (soldiers (fst (move_soldiers b e)))"
    unfolding soldiers_step by (rule count_team_subseq [OF resolve_combat_subseq])
  also have "\<dots> = count_team t (soldiers b)"
    unfolding soldiers_move_soldiers by (rule count_team_map_team [OF move_loop_team])
  finally show ?thesis .
qed

subsection \<open>Fights with a known outcome\<close>

lemma combat_strong_first:
  assumes "random_ok e" "strength soldier1 = 100" "strength soldier2 = 1"
  shows "fst (combat i j soldier1 soldier2 dead_soldiers e) = insert j dead_soldiers"
proof -
  from assms(1) have "0 \<le> random_src e 0" "random_src e (Suc 0) < 1"
    by (simp_all add: random_ok_def)
  then have "real_of_int (strength soldier1) + random_src e 0 * 10 >
      real_of_int (strength soldier2) + random_src e (Suc 0) * 10"
    by (simp add: assms(2,3))
  then show ?thesis
    by (simp add: combat_def random_def case_prod_beta Let_def)
qed

lemma combat_weak_first:
  assumes "random_ok e" "strength soldier1 = 1" "strength soldier2 = 100"
  shows "fst (combat i j soldier1 soldier2 dead_soldiers e) = insert i dead_soldiers"
proof -
  from assms(1) have "random_src e 0 < 1" "0 \<le> random_src e (Suc 0)"
    by (simp_all add: random_ok_def)
  then have "\<not> real_of_int (strength soldier1) + random_src e 0 * 10 >
      real_of_int (strength soldier2) + random_src e (Suc 0) * 10"
    by (simp add: assms(2,3))
  then show ?thesis
    by (simp add: combat_def random_def case_prod_beta Let_def)
qed

section \<open>The claims\<close>

text \<open>
  Claim C1: for a soldier of the random-walk team at \<open>(x, y)\<close> the movement policy
  returns \<open>(x + dx, y + dy)\<close>, with \<open>dx\<close> and \<open>dy\<close> drawn from -1, 0, 1, and the new
  position is that target clipped to the grid.

  The source computes \<open>best_move = (random.randint(-1, 1), random.randint(-1, 1))\<close>:
  the two draws alone, the position not added, under the comment that this team moves
  by random walks. With both draws 0 the soldier at (3, 3) of a 4 by 4 grid should stay
  where it is; the policy returns (0, 0) and the soldier lands on (0, 0).
\<close>

theorem random_walk_target_ignores_position:
  "fst (randint env_zero) = 0 \<and> fst (randint (snd (randint env_zero))) = 0 \<and>
   (x walker + 0, y walker + 0) = (3, 3) \<and>
   fst (best_move_of walker env_zero) = (0, 0) \<and>
   soldiers (fst (move_soldiers lone_walker_field env_zero)) = [walker\<lparr>x := 0, y := 0\<rparr>]"
  by (simp add: field_defs move_defs lone_walker_field_def walker_def env_zero_def)

text \<open>
  Claim C2: after \<open>step\<close> the turn counter is one greater, one entry is appended to the
  history, and that entry is the pair \<open>get_survivor_count\<close> returns at that point.

  \<open>record_history\<close> counts the teams \<open>'Quantum'\<close> and \<open>'B'\<close>, \<open>get_survivor_count\<close>
  counts \<open>'Quantum'\<close> and \<open>'Classical'\<close>. On a battlefield whose only soldier is of team
  \<open>'B'\<close> the turn goes from 0 to 1 and one entry is appended, but the entry is (0, 1)
  and the survivor count is (0, 0).
\<close>

theorem history_entry_differs_from_survivor_count:
  "turn (fst (step lone_walker_field env_zero)) = turn lone_walker_field + 1 \<and>
   history (fst (step lone_walker_field env_zero)) =
     \<lparr>team_a_count = [0], team_b_count = [1], turn_hist = [1]\<rparr> \<and>
   get_survivor_count (fst (step lone_walker_field env_zero)) = (0, 0)"
  by (simp add: step_def record_history_def count_team_def get_survivor_count_def
      field_defs move_defs combat_defs lone_walker_field_def walker_def env_zero_def)




text \<open>
  Claim C4, as amended: on a battlefield of width and height at least 1, every soldier
  alive after any call of \<open>step\<close> has \<open>0 \<le> x < width\<close> and \<open>0 \<le> y < height\<close>, whatever
  the positions before and whatever the movement policies return.
\<close>

theorem clipping_invariant:
  assumes "1 \<le> width b" and "1 \<le> height b"
    and "s \<in> set (soldiers (fst (steps (Suc n) b e)))"
  shows "0 \<le> x s \<and> x s < width b \<and> 0 \<le> y s \<and> y s < height b"
proof -
  define b' where "b' = fst (steps n b e)"
  define e' where "e' = snd (steps n b e)"
  have w: "width b' = width b" and h: "height b' = height b"
    by (simp_all add: b'_def width_steps height_steps)
  from assms(3) have "s \<in> set (soldiers (fst (step b' e')))"
    by (simp add: b'_def e'_def case_prod_beta)
  with step_subset_moved
  have "s \<in> set (fst (move_loop (width b') (height b') (soldiers b') e'))"
    unfolding soldiers_move_soldiers by blast
  from move_loop_clip [OF _ _ this] assms(1,2) show ?thesis
    by (simp add: w h)
qed

theorem clipping_invariant_witness:
  "0 \<le> x (walker\<lparr>x := 0, y := 0\<rparr>) \<and>
   x (walker\<lparr>x := 0, y := 0\<rparr>) < width lone_walker_field \<and>
   0 \<le> y (walker\<lparr>x := 0, y := 0\<rparr>) \<and>
   y (walker\<lparr>x := 0, y := 0\<rparr>) < height lone_walker_field"
proof -
  have w: "1 \<le> width lone_walker_field" and h: "1 \<le> height lone_walker_field"
    by (simp_all add: lone_walker_field_def field_defs)
  have "soldiers (fst (steps (Suc 0) lone_walker_field env_zero)) = [walker\<lparr>x := 0, y := 0\<rparr>]"
    by (simp add: step_def record_history_def
      field_defs move_defs combat_defs lone_walker_field_def walker_def env_zero_def)
  then have m: "walker\<lparr>x := 0, y := 0\<rparr>
      \<in> set (soldiers (fst (steps (Suc 0) lone_walker_field env_zero)))"
    by simp
  from clipping_invariant [OF w h m] show ?thesis .
qed

text \<open>
  Without the bound on the grid the claim fails: the constructor takes any width and
  height, and on a grid of width 0 the clip gives \<open>x = 0\<close>, which is not below the width.
\<close>

theorem clipping_fails_on_empty_grid:
  "soldiers (fst (step empty_grid_field env_zero)) = [walker\<lparr>x := 0, y := 0\<rparr>] \<and>
   width empty_grid_field = 0 \<and> height empty_grid_field = 0 \<and>
   \<not> x (walker\<lparr>x := 0, y := 0\<rparr>) < width empty_grid_field"
  by (simp add: step_def record_history_def
      field_defs move_defs combat_defs empty_grid_field_def walker_def env_zero_def)


text \<open>
  Claim C6: \<open>is_battle_over\<close> is true exactly when a component of
  \<open>get_survivor_count\<close> is zero.
\<close>

theorem is_battle_over_iff_zero_component:
  "is_battle_over b \<longleftrightarrow>
     fst (get_survivor_count b) = 0 \<or> snd (get_survivor_count b) = 0"
  by (simp add: is_battle_over_def get_survivor_count_def)

text \<open>
  Claim C7: both components of \<open>get_survivor_count\<close> are at least 0, and along any
  sequence of calls of \<open>step\<close> neither component grows from one turn to the next.
\<close>

theorem survivor_count_nonneg_nonincreasing:
  "0 \<le> fst (get_survivor_count (fst (steps n b e))) \<and>
   0 \<le> snd (get_survivor_count (fst (steps n b e))) \<and>
   fst (get_survivor_count (fst (steps (Suc n) b e)))
     \<le> fst (get_survivor_count (fst (steps n b e))) \<and>
   snd (get_survivor_count (fst (steps (Suc n) b e)))
     \<le> snd (get_survivor_count (fst (steps n b e)))"
  by (simp add: get_survivor_count_def case_prod_beta count_team_nonneg count_team_step)

text \<open>
  Claim C8: of two soldiers, one of team \<open>'Quantum'\<close> with strength 100 at (0, 0) and
  range 5, one of the other team with strength 1 at (1, 0) and range 5, in either order
  in the list, \<open>resolve_combat\<close> removes the second and keeps the first for every pair
  of draws in [0, 1); then \<open>get_survivor_count\<close> is (1, 0) and \<open>get_winner\<close> is
  \<open>'Quantum'\<close>.
\<close>

theorem strong_a_beats_weak_b:
  assumes "random_ok e" and "t \<noteq> ''Quantum''"
    and "soldiers b = [strong_a u, weak_b u' t] \<or> soldiers b = [weak_b u' t, strong_a u]"
  shows "soldiers (fst (resolve_combat b e)) = [strong_a u] \<and>
         get_survivor_count (fst (resolve_combat b e)) = (1, 0) \<and>
         get_winner (fst (resolve_combat b e)) = Some ''Quantum''"
proof -
  have s: "strength (strong_a u) = 100" "strength (weak_b u' t) = 1"
    by (simp_all add: strong_a_def weak_b_def)
  have f: "can_fight (strong_a u) (weak_b u' t)" "can_fight (weak_b u' t) (strong_a u)"
    using assms(2) by (auto simp add: can_fight_def distance_to_def strong_a_def weak_b_def)
  from assms(3) have r: "soldiers (fst (resolve_combat b e)) = [strong_a u]"
  proof
    assume "soldiers b = [strong_a u, weak_b u' t]"
    then show ?thesis
      by (simp add: resolve_combat_def case_prod_beta f combat_strong_first [OF assms(1) s])
  next
    assume "soldiers b = [weak_b u' t, strong_a u]"
    then show ?thesis
      by (simp add: resolve_combat_def case_prod_beta f
          combat_weak_first [OF assms(1) s(2,1)])
  qed
  have "team (strong_a u) = ''Quantum''"
    by (simp add: strong_a_def)
  with r show ?thesis
    by (simp add: get_survivor_count_def get_winner_def count_team_def)
qed

theorem strong_a_beats_weak_b_witness:
  "soldiers (fst (resolve_combat duel_field env_zero)) = [strong_a ''knight''] \<and>
   get_survivor_count (fst (resolve_combat duel_field env_zero)) = (1, 0) \<and>
   get_winner (fst (resolve_combat duel_field env_zero)) = Some ''Quantum''"
proof -
  have r: "random_ok env_zero"
    by (simp add: random_ok_def env_zero_def)
  have t: "''Classical'' \<noteq> ''Quantum''"
    by simp
  have d: "soldiers duel_field = [strong_a ''knight'', weak_b ''soldier'' ''Classical'']
     \<or> soldiers duel_field = [weak_b ''soldier'' ''Classical'', strong_a ''knight'']"
    by (simp add: duel_field_def field_defs)
  from strong_a_beats_weak_b [OF r t d] show ?thesis .
qed

text \<open>
  Claim C9: \<open>resolve_combat\<close> only removes soldiers: the list after it is the list
  before it with some entries left out, so every survivor keeps its position, strength,
  unit type, team and range, and the survivors keep their order; the other fields of
  the battlefield are as before.
\<close>

theorem resolve_combat_removal_only:
  "subseq (soldiers (fst (resolve_combat b e))) (soldiers b) \<and>
   width (fst (resolve_combat b e)) = width b \<and>
   height (fst (resolve_combat b e)) = height b \<and>
   board_size (fst (resolve_combat b e)) = board_size b \<and>
   turn (fst (resolve_combat b e)) = turn b \<and>
   history (fst (resolve_combat b e)) = history b"
  by (simp add: resolve_combat_subseq width_resolve_combat height_resolve_combat
      board_size_resolve_combat turn_resolve_combat history_resolve_combat)

text \<open>
  Claim C10: on a grid of width and height at least 2, every soldier whose team is not
  \<open>'Quantum'\<close> has \<open>x\<close> and \<open>y\<close> in 0, 1 after \<open>move_soldiers\<close>, and so after \<open>step\<close>,
  wherever it was before, the draws of \<open>random.randint(-1, 1)\<close> being -1, 0 or 1.
\<close>

theorem random_walkers_land_near_origin:
  assumes "randint_ok e" and "2 \<le> width b" and "2 \<le> height b"
    and "team s \<noteq> ''Quantum''"
  shows "(s \<in> set (soldiers (fst (move_soldiers b e))) \<longrightarrow>
            (x s = 0 \<or> x s = 1) \<and> (y s = 0 \<or> y s = 1)) \<and>
         (s \<in> set (soldiers (fst (step b e))) \<longrightarrow>
            (x s = 0 \<or> x s = 1) \<and> (y s = 0 \<or> y s = 1))"
proof -
  have "(x s = 0 \<or> x s = 1) \<and> (y s = 0 \<or> y s = 1)"
    if "s \<in> set (soldiers (fst (move_soldiers b e)))"
    using move_loop_offsets [OF assms(1-3) _ assms(4)] that
    unfolding soldiers_move_soldiers by blast
  with step_subset_moved show ?thesis by blast
qed

theorem random_walkers_land_near_origin_witness:
  "(x (walker\<lparr>x := 0, y := 0\<rparr>) = 0 \<or> x (walker\<lparr>x := 0, y := 0\<rparr>) = 1) \<and>
   (y (walker\<lparr>x := 0, y := 0\<rparr>) = 0 \<or> y (walker\<lparr>x := 0, y := 0\<rparr>) = 1)"
proof -
  have r: "randint_ok env_zero"
    by (simp add: randint_ok_def env_zero_def)
  have w: "2 \<le> width lone_walker_field" and h: "2 \<le> height lone_walker_field"
    by (simp_all add: lone_walker_field_def field_defs)
  have t: "team (walker\<lparr>x := 0, y := 0\<rparr>) \<noteq> ''Quantum''"
    by (simp add: walker_def)
  have m: "walker\<lparr>x := 0, y := 0\<rparr>
      \<in> set (soldiers (fst (move_soldiers lone_walker_field env_zero)))"
    by (simp add: field_defs move_defs lone_walker_field_def walker_def env_zero_def)
  have m': "walker\<lparr>x := 0, y := 0\<rparr> \<in> set (soldiers (fst (step lone_walker_field env_zero)))"
    by (simp add: step_def record_history_def
      field_defs move_defs combat_defs lone_walker_field_def walker_def env_zero_def)
  from random_walkers_land_near_origin [OF r w h t] m m' show ?thesis by blast
qed

end
